theory Spec2Isabelle
  imports Complex_Main
begin

section \<open>Python values used by app.py\<close>

text \<open>
  Strings are lists of characters; a character stands for a code point below 256.
  A raised value carries the name of its class and the text that \<open>str(e)\<close> gives.
  \<open>Exception cls msg\<close> is an instance of Python's class \<open>Exception\<close>, the class that
  both handlers of app.py name. \<open>BaseException cls msg\<close> is a raised value that is no
  instance of \<open>Exception\<close>, such as \<open>KeyboardInterrupt\<close> or \<open>SystemExit\<close>: a clause
  \<open>except Exception\<close> does not catch it, and it goes on to the caller.
\<close>

datatype py_exception = Exception string string | BaseException string string

fun str_exception :: "py_exception \<Rightarrow> string" where
  "str_exception (Exception cls msg) = msg"
| "str_exception (BaseException cls msg) = msg"

text \<open>\<open>isinstance(e, Exception)\<close>, the test of \<open>except Exception as e\<close>.\<close>

fun is_Exception :: "py_exception \<Rightarrow> bool" where
  "is_Exception (Exception cls msg) = True"
| "is_Exception (BaseException cls msg) = False"

definition IndexError :: py_exception where
  "IndexError = Exception ''IndexError'' ''list index out of range''"

text \<open>\<open>str(KeyError(k))\<close> is the key in single quotes.\<close>

definition KeyError :: "string \<Rightarrow> py_exception" where
  "KeyError k = Exception ''KeyError'' ([CHR 0x27] @ k @ [CHR 0x27])"

subsection \<open>String methods\<close>

text \<open>\<open>str.isspace\<close> on one character, for the code points below 256.\<close>

definition py_isspace :: "char \<Rightarrow> bool" where
  "py_isspace c = (c \<in> set [CHR 0x09, CHR 0x0A, CHR 0x0B, CHR 0x0C, CHR 0x0D,
                             CHR 0x1C, CHR 0x1D, CHR 0x1E, CHR 0x1F, CHR 0x20,
                             CHR 0x85, CHR 0xA0])"

text \<open>\<open>s.strip()\<close>: whitespace removed at both ends.\<close>

definition py_strip :: "string \<Rightarrow> string" where
  "py_strip s = rev (dropWhile py_isspace (rev (dropWhile py_isspace s)))"

text \<open>
  \<open>s.split(sep)\<close> for a separator of one character: the pieces between the
  separators, empty pieces included; \<open>cur\<close> is the piece being read.
\<close>

fun split_on_from :: "char \<Rightarrow> string \<Rightarrow> string \<Rightarrow> string list" where
  "split_on_from sep cur [] = [cur]"
| "split_on_from sep cur (c # cs) =
     (if c = sep then cur # split_on_from sep [] cs
      else split_on_from sep (cur @ [c]) cs)"

definition py_split_on :: "char \<Rightarrow> string \<Rightarrow> string list" where
  "py_split_on sep s = split_on_from sep [] s"

text \<open>
  \<open>s.split()\<close>: the maximal runs of characters that are not whitespace, in order;
  \<open>tok\<close> is the token being read.
\<close>

fun split_from :: "string \<Rightarrow> string \<Rightarrow> string list" where
  "split_from tok [] = (if tok = [] then [] else [tok])"
| "split_from tok (c # cs) =
     (if py_isspace c then (if tok = [] then split_from [] cs else tok # split_from [] cs)
      else split_from (tok @ [c]) cs)"

definition py_split :: "string \<Rightarrow> string list" where
  "py_split s = split_from [] s"

text \<open>\<open>sep.join(xs)\<close>.\<close>

fun py_join :: "string \<Rightarrow> string list \<Rightarrow> string" where
  "py_join sep [] = []"
| "py_join sep [x] = x"
| "py_join sep (x # y # ys) = x @ sep @ py_join sep (y # ys)"

text \<open>\<open>sub in s\<close> for strings: \<open>sub\<close> occurs in \<open>s\<close> as a contiguous piece.\<close>

fun py_in :: "string \<Rightarrow> string \<Rightarrow> bool" where
  "py_in sub [] = (sub = [])"
| "py_in sub (c # cs) = (take (length sub) (c # cs) = sub \<or> py_in sub cs)"

section \<open>The process state\<close>

text \<open>
  A message of the chat payload is the dict \<open>{"role": ..., "content": ...}\<close>; a
  model record is the dict \<open>{'name', 'full_name', 'size', 'modified'}\<close> of
  \<open>get_models\<close>. Both have fixed keys and are records here.
\<close>

record message =
  role :: string
  content :: string

record model_record =
  name :: string
  full_name :: string
  size' :: string
  modified :: string

text \<open>
  The keyword arguments of \<open>ollama.chat\<close>. The temperature is a Python float that
  app.py hands on as it is, without arithmetic; it is a real number here.
\<close>

record chat_options =
  temperature :: real

record chat_request =
  model :: string
  messages :: "message list"
  options :: chat_options

text \<open>
  The mutable list objects of the program live in a heap, and a variable holds the
  address of its list: the conversation history (a list of turns, each turn a list of
  strings) and the \<open>messages\<close> list that \<open>chat_with_model\<close> builds. The address of
  an object is its position in the heap, so a new object gets the address
  \<open>length (heap w)\<close>.
\<close>

type_synonym addr = nat

datatype pyobj = Turns "string list list" | Messages "message list"

text \<open>
  The world: the heap, the lines written by \<open>print\<close>, and the requests that
  reached \<open>ollama.chat\<close>, oldest first.
\<close>

record world =
  heap :: "pyobj list"
  console :: "string list"
  chat_log :: "chat_request list"

definition print :: "string \<Rightarrow> world \<Rightarrow> world" where
  "print s w = w\<lparr>console := console w @ [s]\<rparr>"

definition heap_get :: "world \<Rightarrow> addr \<Rightarrow> pyobj option" where
  "heap_get w a = (if a < length (heap w) then Some (heap w ! a) else None)"

definition alloc :: "pyobj \<Rightarrow> world \<Rightarrow> addr \<times> world" where
  "alloc obj w = (length (heap w), w\<lparr>heap := heap w @ [obj]\<rparr>)"

section \<open>The inventory reader\<close>

text \<open>
  What \<open>subprocess.run(['ollama', 'list'], capture_output=True, text=True)\<close>
  does: it raises (an \<open>Exception\<close> when the program is not installed, say, or a
  \<open>KeyboardInterrupt\<close> while it waits for the process), or it returns a completed
  process with its exit code and the two captured texts.
\<close>

record completed_process =
  returncode :: int
  stdout :: string
  stderr :: string

datatype run_outcome = RunRaises py_exception | Completed completed_process

definition placeholder :: model_record where
  "placeholder = \<lparr>name = ''llama2'', full_name = ''llama2:7b'',
                   size' = ''Unknown'', modified = ''Unknown''\<rparr>"

text \<open>
  The loop of lines 30 to 47 over the lines that are left, \<open>models\<close> being the
  list built so far. \<open>name.split(':')[0]\<close> is an index into a list, with its
  \<open>IndexError\<close>.
\<close>

fun parse_lines :: "string list \<Rightarrow> model_record list \<Rightarrow> py_exception + model_record list" where
  "parse_lines [] models = Inr models"
| "parse_lines (line # rest) models =
     (if py_strip line = [] then parse_lines rest models
      else
        (let parts = py_split line in
         if length parts \<ge> 4 then
           (let name = parts ! 0;
                size = parts ! 1 @ '' '' @ parts ! 2;
                modified = py_join '' '' (drop 3 parts)
            in case py_split_on CHR '':'' name of
                 [] \<Rightarrow> Inl IndexError
               | base # _ \<Rightarrow>
                   parse_lines rest
                     (models @ [\<lparr>name = base, full_name = name,
                                 size' = size, modified = modified\<rparr>]))
         else parse_lines rest models))"

text \<open>
  Lines 25 to 30: the lines of the stripped output, without the first one when it
  contains \<open>NAME\<close>. \<open>lines[0]\<close> is an index into a list, with its \<open>IndexError\<close>.
\<close>

definition data_lines :: "string \<Rightarrow> py_exception + string list" where
  "data_lines out =
     (let lines = py_split_on CHR 0x0A (py_strip out) in
      case lines of
        [] \<Rightarrow> Inl IndexError
      | first # _ \<Rightarrow>
          (let start_idx = (if py_in ''NAME'' first then 1 else 0 :: nat)
           in Inr (drop start_idx lines)))"

text \<open>Lines 24 to 49, the part of the \<open>try\<close> block after the exit code is checked.\<close>

definition parse_output :: "string \<Rightarrow> py_exception + model_record list" where
  "parse_output out =
     (case data_lines out of
        Inl e \<Rightarrow> Inl e
      | Inr rows \<Rightarrow>
          (case parse_lines rows [] of
             Inl e \<Rightarrow> Inl e
           | Inr models \<Rightarrow> Inr (if models \<noteq> [] then models else [placeholder])))"

definition get_models :: "run_outcome \<Rightarrow> world \<Rightarrow> (py_exception + model_record list) \<times> world" where
  "get_models run w =
     (let handler = (\<lambda>e. if is_Exception e
                          then (Inr [placeholder], print (''Error fetching models: '' @ str_exception e) w)
                          else (Inl e, w))
      in case run of
           RunRaises e \<Rightarrow> handler e
         | Completed result \<Rightarrow>
             if returncode result \<noteq> 0
             then (Inr [placeholder], print (''Error running ollama list: '' @ stderr result) w)
             else (case parse_output (stdout result) of
                     Inl e \<Rightarrow> handler e
                   | Inr models \<Rightarrow> (Inr models, w)))"

section \<open>The chat relay\<close>

text \<open>
  What \<open>ollama.chat(model=..., messages=..., options=...)\<close> does with a request:
  it raises (an \<open>Exception\<close> or a value of another kind), or it returns a response,
  a dict of dicts that is read as \<open>response['message']['content']\<close>.
\<close>

datatype chat_outcome =
  ChatRaises py_exception
| ChatReturns "string \<rightharpoonup> (string \<rightharpoonup> string)"

text \<open>The string literal of lines 61 to 66, with its line breaks and its indentation.\<close>

definition system_message :: string where
  "system_message =
     ''You are an AI programming assistant. When asked about code:'' @ [CHR 0x0A] @
     ''        1. Provide clear, well-commented code examples'' @ [CHR 0x0A] @
     ''        2. Explain your reasoning and approach'' @ [CHR 0x0A] @
     ''        3. Highlight best practices and potential pitfalls'' @ [CHR 0x0A] @
     ''        4. Use markdown formatting for code blocks'' @ [CHR 0x0A] @
     ''        ''"

text \<open>
  \<open>human_msg, assistant_msg = turn\<close>: a turn of exactly two elements is taken
  apart, any other raises \<open>ValueError\<close> (the texts are those of CPython 3.8 to 3.13).
\<close>

definition unpack_turn :: "string list \<Rightarrow> py_exception + string \<times> string" where
  "unpack_turn turn =
     (case turn of
        [] \<Rightarrow> Inl (Exception ''ValueError'' ''not enough values to unpack (expected 2, got 0)'')
      | [x] \<Rightarrow> Inl (Exception ''ValueError'' ''not enough values to unpack (expected 2, got 1)'')
      | [human_msg, assistant_msg] \<Rightarrow> Inr (human_msg, assistant_msg)
      | _ \<Rightarrow> Inl (Exception ''ValueError'' ''too many values to unpack (expected 2)''))"

text \<open>
  \<open>messages.append(m)\<close> and the read of \<open>messages\<close> for the call. Both are used
  on the address of the list that \<open>chat_with_model\<close> has just created.
\<close>

definition append_message :: "addr \<Rightarrow> message \<Rightarrow> world \<Rightarrow> world" where
  "append_message a m w =
     (case heap_get w a of
        Some (Messages ms) \<Rightarrow> w\<lparr>heap := (heap w)[a := Messages (ms @ [m])]\<rparr>
      | _ \<Rightarrow> w)"

definition messages_at :: "world \<Rightarrow> addr \<Rightarrow> message list" where
  "messages_at w a = (case heap_get w a of Some (Messages ms) \<Rightarrow> ms | _ \<Rightarrow> [])"

text \<open>
  The loop of lines 74 to 76 over the turns that are left; \<open>msgs\<close> is the
  address of the \<open>messages\<close> list, the only object the body writes to.
\<close>

fun add_history :: "string list list \<Rightarrow> addr \<Rightarrow> world \<Rightarrow> (py_exception + unit) \<times> world" where
  "add_history [] msgs w = (Inr (), w)"
| "add_history (turn # rest) msgs w =
     (case unpack_turn turn of
        Inl e \<Rightarrow> (Inl e, w)
      | Inr (human_msg, assistant_msg) \<Rightarrow>
          add_history rest msgs
            (append_message msgs \<lparr>role = ''assistant'', content = assistant_msg\<rparr>
              (append_message msgs \<lparr>role = ''user'', content = human_msg\<rparr> w)))"

text \<open>
  The \<open>try\<close> block of \<open>chat_with_model\<close>, lines 61 to 90. The argument
  \<open>history\<close> is the address of the caller's list; an address that holds no list of
  turns stands for an argument that cannot be iterated as one. The request is entered
  in \<open>chat_log\<close> when the call is made.
\<close>

definition chat_try ::
  "(chat_request \<Rightarrow> chat_outcome) \<Rightarrow> string \<Rightarrow> addr \<Rightarrow> string \<Rightarrow> real \<Rightarrow> world
     \<Rightarrow> (py_exception + string) \<times> world" where
  "chat_try chat message history model_name temp w =
     (let (messages, w1) = alloc (Messages [\<lparr>role = ''system'', content = system_message\<rparr>]) w
      in case heap_get w1 history of
           Some (Turns turns) \<Rightarrow>
             (case add_history turns messages w1 of
                (Inl e, w2) \<Rightarrow> (Inl e, w2)
              | (Inr _, w2) \<Rightarrow>
                  (let w3 = append_message messages \<lparr>role = ''user'', content = message\<rparr> w2;
                       request = \<lparr>model = model_name, messages = messages_at w3 messages,
                                  options = \<lparr>temperature = temp\<rparr>\<rparr>;
                       w4 = w3\<lparr>chat_log := chat_log w3 @ [request]\<rparr>
                   in case chat request of
                        ChatRaises e \<Rightarrow> (Inl e, w4)
                      | ChatReturns response \<Rightarrow>
                          (case response ''message'' of
                             None \<Rightarrow> (Inl (KeyError ''message''), w4)
                           | Some msg \<Rightarrow>
                               (case msg ''content'' of
                                  None \<Rightarrow> (Inl (KeyError ''content''), w4)
                                | Some text \<Rightarrow> (Inr text, w4)))))
         | _ \<Rightarrow> (Inl (Exception ''TypeError'' ''object is not iterable''), w1))"

text \<open>
  \<open>chat_with_model\<close>: the \<open>try\<close> block under its handler, lines 91 to 93. The
  handler is \<open>except Exception\<close>: a raised value of another kind leaves the function.
\<close>

definition chat_with_model ::
  "(chat_request \<Rightarrow> chat_outcome) \<Rightarrow> string \<Rightarrow> addr \<Rightarrow> string \<Rightarrow> real \<Rightarrow> world
     \<Rightarrow> (py_exception + string) \<times> world" where
  "chat_with_model chat message history model_name temp w =
     (case chat_try chat message history model_name temp w of
        (Inl e, w') \<Rightarrow>
          if is_Exception e
          then (Inr (''Error: '' @ str_exception e),
                print (''Debug - Error in chat_with_model: '' @ str_exception e) w')
          else (Inl e, w')
      | (Inr text, w') \<Rightarrow> (Inr text, w'))"

section \<open>The submit handler\<close>

text \<open>
  \<open>respond\<close>, lines 149 to 156. An empty message is the falsy one. The turn
  \<open>(message, bot_message)\<close> is appended to the caller's list in place, and the
  handler returns the new textbox value with the address it was given.
\<close>

definition respond ::
  "(chat_request \<Rightarrow> chat_outcome) \<Rightarrow> string \<Rightarrow> addr \<Rightarrow> string \<Rightarrow> real \<Rightarrow> world
     \<Rightarrow> (py_exception + string \<times> addr) \<times> world" where
  "respond chat message chat_history model_name temp w =
     (if message = [] then (Inr ([], chat_history), w)
      else
        (case chat_with_model chat message chat_history model_name temp w of
           (Inl e, w1) \<Rightarrow> (Inl e, w1)
         | (Inr bot_message, w1) \<Rightarrow>
             (case heap_get w1 chat_history of
                Some (Turns turns) \<Rightarrow>
                  (Inr ([], chat_history),
                   w1\<lparr>heap := (heap w1)[chat_history := Turns (turns @ [[message, bot_message]])]\<rparr>)
              | _ \<Rightarrow> (Inl (Exception ''AttributeError'' ''object has no attribute append''), w1))))"

section \<open>Properties of the string methods\<close>

text \<open>
  \<open>s.split(sep)\<close> never returns an empty list, and its first piece is \<open>s\<close> up to
  its first separator. So neither \<open>lines[0]\<close> nor \<open>name.split(':')[0]\<close> raises.
\<close>

lemma split_on_from_hd: "\<exists>rest. split_on_from sep cur s = (cur @ takeWhile (\<lambda>c. c \<noteq> sep) s) # rest"
proof (induction s arbitrary: cur)
  case Nil
  then show ?case by simp
next
  case (Cons a s)
  show ?case using Cons.IH [of "cur @ [a]"] by simp
qed

lemma py_split_on_hd: "\<exists>rest. py_split_on sep s = takeWhile (\<lambda>c. c \<noteq> sep) s # rest"
  using split_on_from_hd [of sep "[]" s] by (simp add: py_split_on_def)

text \<open>
  The tokens of \<open>s.split()\<close> are not empty and hold no whitespace; the pieces of
  \<open>s.split(sep)\<close>, joined by \<open>sep\<close> again, are \<open>s\<close>.
\<close>

lemma split_from_tokens:
  "\<forall>c\<in>set tok. \<not> py_isspace c \<Longrightarrow>
   \<forall>t\<in>set (split_from tok s). t \<noteq> [] \<and> (\<forall>c\<in>set t. \<not> py_isspace c)"
proof (induction s arbitrary: tok)
  case Nil
  then show ?case by simp
next
  case (Cons c s)
  have empty: "\<forall>t\<in>set (split_from [] s). t \<noteq> [] \<and> (\<forall>c\<in>set t. \<not> py_isspace c)"
    using Cons.IH [of "[]"] by simp
  show ?case
  proof (cases "py_isspace c")
    case True
    with empty Cons.prems show ?thesis by auto
  next
    case False
    with Cons.prems have "\<forall>d\<in>set (tok @ [c]). \<not> py_isspace d" by simp
    from Cons.IH [OF this] False show ?thesis by simp
  qed
qed

lemma py_split_tokens:
  "\<forall>t\<in>set (py_split s). t \<noteq> [] \<and> (\<forall>c\<in>set t. \<not> py_isspace c)"
  using split_from_tokens [of "[]" s] by (simp add: py_split_def)

lemma split_on_from_join: "py_join [sep] (split_on_from sep cur s) = cur @ s"
proof (induction s arbitrary: cur)
  case Nil
  then show ?case by simp
next
  case (Cons c s)
  obtain rest where r: "split_on_from sep [] s = takeWhile (\<lambda>c. c \<noteq> sep) s # rest"
    using split_on_from_hd [of sep "[]" s] by auto
  show ?case
    using Cons.IH [of "[]"] Cons.IH [of "cur @ [c]"] r by simp
qed

lemma py_split_on_join: "py_join [sep] (py_split_on sep s) = s"
  by (simp add: py_split_on_def split_on_from_join)

lemma split_from_spaces: "\<forall>c\<in>set s. py_isspace c \<Longrightarrow> split_from [] s = []"
  by (induction s) auto

lemma py_strip_empty: "py_strip s = [] \<Longrightarrow> \<forall>c\<in>set s. py_isspace c"
proof -
  assume "py_strip s = []"
  then have a: "dropWhile py_isspace (rev (dropWhile py_isspace s)) = []"
    by (simp add: py_strip_def)
  show ?thesis
  proof (cases "dropWhile py_isspace s")
    case Nil
    then show ?thesis by (simp add: dropWhile_eq_Nil_conv)
  next
    case (Cons x xs)
    then have "\<not> py_isspace x" by (metis hd_dropWhile list.sel(1) list.distinct(1))
    moreover from a Cons have "\<forall>c\<in>set (x # xs). py_isspace c"
      by (simp add: dropWhile_eq_Nil_conv)
    ultimately show ?thesis by simp
  qed
qed

lemma py_strip_empty_split: "py_strip s = [] \<Longrightarrow> py_split s = []"
  by (simp add: py_split_def split_from_spaces py_strip_empty)

lemma parse_lines_eq:
  "parse_lines ls acc =
     Inr (acc @ map (\<lambda>l. \<lparr>name = takeWhile (\<lambda>c. c \<noteq> CHR '':'') (py_split l ! 0),
                           full_name = py_split l ! 0,
                           size' = py_split l ! 1 @ '' '' @ py_split l ! 2,
                           modified = py_join '' '' (drop 3 (py_split l))\<rparr>)
                    (filter (\<lambda>l. 4 \<le> length (py_split l)) ls))"
proof (induction ls arbitrary: acc)
  case Nil
  then show ?case by simp
next
  case (Cons l ls)
  obtain rest where r: "py_split_on CHR '':'' (py_split l ! 0) = takeWhile (\<lambda>c. c \<noteq> CHR '':'') (py_split l ! 0) # rest"
    using py_split_on_hd by blast
  show ?case
    by (simp add: Cons.IH r Let_def py_strip_empty_split)
qed

lemma data_lines_Inr: "\<exists>rows. data_lines out = Inr rows"
proof -
  obtain rest where "py_split_on CHR 0x0A (py_strip out) = takeWhile (\<lambda>c. c \<noteq> CHR 0x0A) (py_strip out) # rest"
    using py_split_on_hd by blast
  then show ?thesis by (simp add: data_lines_def Let_def)
qed

lemma py_in_iff: "py_in sub s \<longleftrightarrow> (\<exists>a b. s = a @ sub @ b)"
proof (induction s)
  case Nil
  then show ?case by auto
next
  case (Cons c cs)
  show ?case
  proof
    assume "py_in sub (c # cs)"
    then consider "take (length sub) (c # cs) = sub" | "py_in sub cs" by auto
    then show "\<exists>a b. c # cs = a @ sub @ b"
    proof cases
      case 1
      then have "c # cs = [] @ sub @ drop (length sub) (c # cs)"
        by (metis append_Nil append_take_drop_id)
      then show ?thesis by blast
    next
      case 2
      then obtain a b where "cs = a @ sub @ b" using Cons.IH by blast
      then have "c # cs = (c # a) @ sub @ b" by simp
      then show ?thesis by blast
    qed
  next
    assume "\<exists>a b. c # cs = a @ sub @ b"
    then obtain a b where ab: "c # cs = a @ sub @ b" by blast
    show "py_in sub (c # cs)"
    proof (cases a)
      case Nil
      with ab have "take (length sub) (c # cs) = sub" by simp
      then show ?thesis by simp
    next
      case (Cons x xs)
      with ab have "cs = xs @ sub @ b" by simp
      then have "py_in sub cs" using Cons.IH by blast
      then show ?thesis by simp
    qed
  qed
qed

section \<open>Properties of the inventory reader\<close>

lemma get_models_ok:
  "returncode p = 0 \<Longrightarrow> data_lines (stdout p) = Inr rows \<Longrightarrow> parse_lines rows [] = Inr models \<Longrightarrow>
   get_models (Completed p) w = (Inr (if models \<noteq> [] then models else [placeholder]), w)"
  by (simp add: get_models_def parse_output_def)

text \<open>The definitions that the examples on concrete outputs unfold.\<close>

lemmas eval_defs = data_lines_def py_strip_def py_isspace_def py_split_on_def py_split_def Let_def placeholder_def

text \<open>
  Claim C2, as the code has it. When the inventory command completes, \<open>get_models\<close>
  returns, and what it returns is not empty. It returns exactly the placeholder record,
  whose name is \<open>llama2\<close> and whose full name is \<open>llama2:7b\<close>, when the call raises an
  instance of \<open>Exception\<close>, when the exit code is not zero, and when no line left after
  the header has four tokens. A raised value that is no instance of \<open>Exception\<close> passes
  the handler of line 51 and leaves \<open>get_models\<close>.
\<close>

theorem get_models_fallback:
  "(\<exists>models. fst (get_models (Completed r) w) = Inr models \<and> models \<noteq> []) \<and>
   (is_Exception e \<longrightarrow> fst (get_models (RunRaises e) w) = Inr [placeholder]) \<and>
   (\<not> is_Exception b \<longrightarrow> fst (get_models (RunRaises b) w) = Inl b) \<and>
   (returncode p \<noteq> 0 \<longrightarrow> fst (get_models (Completed p) w) = Inr [placeholder]) \<and>
   (data_lines (stdout q) = Inr rows \<and> (\<forall>line\<in>set rows. length (py_split line) < 4)
      \<longrightarrow> fst (get_models (Completed q) w) = Inr [placeholder]) \<and>
   name placeholder = ''llama2'' \<and> full_name placeholder = ''llama2:7b''"
proof -
  have total: "\<exists>models. fst (get_models (Completed r) w) = Inr models \<and> models \<noteq> []"
  proof -
    obtain rows where rows: "data_lines (stdout r) = Inr rows"
      using data_lines_Inr by blast
    obtain models where models: "parse_lines rows [] = Inr models"
      using parse_lines_eq by blast
    show ?thesis
    proof (cases "returncode r = 0")
      case True
      then show ?thesis using get_models_ok [OF True rows models] by simp
    next
      case False
      then show ?thesis by (simp add: get_models_def)
    qed
  qed
  have raised: "is_Exception e \<longrightarrow> fst (get_models (RunRaises e) w) = Inr [placeholder]"
    by (simp add: get_models_def)
  have passed: "\<not> is_Exception b \<longrightarrow> fst (get_models (RunRaises b) w) = Inl b"
    by (simp add: get_models_def)
  have exit_code: "returncode p \<noteq> 0 \<longrightarrow> fst (get_models (Completed p) w) = Inr [placeholder]"
    by (simp add: get_models_def)
  have no_rows: "fst (get_models (Completed q) w) = Inr [placeholder]"
    if rows: "data_lines (stdout q) = Inr rows" and short: "\<forall>line\<in>set rows. length (py_split line) < 4"
  proof (cases "returncode q = 0")
    case True
    from short have "filter (\<lambda>l. 4 \<le> length (py_split l)) rows = []"
      by (auto simp: filter_empty_conv)
    then have "parse_lines rows [] = Inr []"
      by (simp add: parse_lines_eq)
    then show ?thesis using get_models_ok [OF True rows] by simp
  next
    case False
    then show ?thesis by (simp add: get_models_def)
  qed
  have fields: "name placeholder = ''llama2'' \<and> full_name placeholder = ''llama2:7b''"
    by (simp add: placeholder_def)
  from total raised passed exit_code no_rows fields show ?thesis by blast
qed

theorem get_models_fallback_witness:
  "is_Exception (Exception ''FileNotFoundError'' ''No such file or directory'') \<and>
   \<not> is_Exception (BaseException ''SystemExit'' ''1'') \<and>
   returncode \<lparr>returncode = 1, stdout = [], stderr = ''no server''\<rparr> \<noteq> 0 \<and>
   data_lines (stdout \<lparr>returncode = 0, stdout = ''NAME SIZE'' @ [CHR 0x0A] @ ''a:1 2 GB'', stderr = []\<rparr>)
     = Inr [''a:1 2 GB''] \<and>
   length (py_split ''a:1 2 GB'') < 4 \<and>
   fst (get_models (RunRaises (Exception ''FileNotFoundError'' ''No such file or directory''))
         \<lparr>heap = [], console = [], chat_log = []\<rparr>) = Inr [placeholder] \<and>
   fst (get_models (RunRaises (BaseException ''SystemExit'' ''1''))
         \<lparr>heap = [], console = [], chat_log = []\<rparr>) = Inl (BaseException ''SystemExit'' ''1'') \<and>
   fst (get_models (Completed \<lparr>returncode = 1, stdout = [], stderr = ''no server''\<rparr>)
         \<lparr>heap = [], console = [], chat_log = []\<rparr>) = Inr [placeholder] \<and>
   fst (get_models (Completed \<lparr>returncode = 0, stdout = ''NAME SIZE'' @ [CHR 0x0A] @ ''a:1 2 GB'', stderr = []\<rparr>)
         \<lparr>heap = [], console = [], chat_log = []\<rparr>) = Inr [placeholder]"
proof -
  let ?e = "Exception ''FileNotFoundError'' ''No such file or directory''"
  let ?b = "BaseException ''SystemExit'' ''1''"
  let ?p = "\<lparr>returncode = 1, stdout = [], stderr = ''no server''\<rparr>"
  let ?q = "\<lparr>returncode = 0, stdout = ''NAME SIZE'' @ [CHR 0x0A] @ ''a:1 2 GB'', stderr = []\<rparr>"
  let ?w = "\<lparr>heap = [], console = [], chat_log = []\<rparr>"
  have e1: "is_Exception ?e"
    by simp
  have e2: "\<not> is_Exception ?b"
    by simp
  have h1: "returncode ?p \<noteq> 0"
    by simp
  have h2: "data_lines (stdout ?q) = Inr [''a:1 2 GB'']"
    by (simp add: eval_defs)
  have h3: "length (py_split ''a:1 2 GB'') < 4"
    by (simp add: eval_defs)
  then have h3': "\<forall>line\<in>set [''a:1 2 GB'']. length (py_split line) < 4"
    by simp
  note inst = get_models_fallback [of ?p ?w ?e ?b ?p ?q "[''a:1 2 GB'']"]
  from inst e1 have r0: "fst (get_models (RunRaises ?e) ?w) = Inr [placeholder]"
    by blast
  from inst e2 have r0': "fst (get_models (RunRaises ?b) ?w) = Inl ?b"
    by blast
  from inst h1 have r1: "fst (get_models (Completed ?p) ?w) = Inr [placeholder]"
    by blast
  from inst h2 h3' have r2: "fst (get_models (Completed ?q) ?w) = Inr [placeholder]"
    by blast
  from e1 e2 h1 h2 h3 r0 r0' r1 r2 show ?thesis
    by blast
qed

text \<open>
  The claim as the specification words it, for every outcome of the call, fails when
  \<open>subprocess.run\<close> is interrupted: \<open>get_models\<close> returns no sequence then.
\<close>

theorem get_models_fallback_counterexample:
  "fst (get_models (RunRaises (BaseException ''KeyboardInterrupt'' []))
         \<lparr>heap = [], console = [], chat_log = []\<rparr>)
     = Inl (BaseException ''KeyboardInterrupt'' [])"
  by (simp add: get_models_def)

text \<open>
  Claim C4. With exit code zero, the result has one record for each line after the header
  whose whitespace split has at least four tokens, in the order of the lines: its name is
  the first token up to its first colon, its full name the first token, its size the second
  and the third token with one space between them, and its modification field the remaining
  tokens joined by single spaces. (The placeholder stands in when there is no such line.)
\<close>

theorem get_models_rows:
  assumes "returncode p = 0" and "data_lines (stdout p) = Inr rows"
  shows "fst (get_models (Completed p) w) =
     Inr (let models = map (\<lambda>line. \<lparr>name = takeWhile (\<lambda>c. c \<noteq> CHR '':'') (py_split line ! 0),
                                      full_name = py_split line ! 0,
                                      size' = py_split line ! 1 @ '' '' @ py_split line ! 2,
                                      modified = py_join '' '' (drop 3 (py_split line))\<rparr>)
                         (filter (\<lambda>line. 4 \<le> length (py_split line)) rows)
          in if models \<noteq> [] then models else [placeholder])"
  using get_models_ok [OF assms parse_lines_eq [of rows "[]"]]
  by (simp add: Let_def)

theorem get_models_rows_witness:
  "returncode \<lparr>returncode = 0,
      stdout = ''NAME SIZE UNIT MODIFIED'' @ [CHR 0x0A] @ ''llama2:7b 3.8 GB 2 weeks ago'' @ [CHR 0x0A] @
               ''mistral  4.1 GB yesterday'' @ [CHR 0x0A], stderr = []\<rparr> = 0 \<and>
   data_lines (stdout \<lparr>returncode = 0,
      stdout = ''NAME SIZE UNIT MODIFIED'' @ [CHR 0x0A] @ ''llama2:7b 3.8 GB 2 weeks ago'' @ [CHR 0x0A] @
               ''mistral  4.1 GB yesterday'' @ [CHR 0x0A], stderr = []\<rparr>)
     = Inr [''llama2:7b 3.8 GB 2 weeks ago'', ''mistral  4.1 GB yesterday''] \<and>
   fst (get_models (Completed \<lparr>returncode = 0,
      stdout = ''NAME SIZE UNIT MODIFIED'' @ [CHR 0x0A] @ ''llama2:7b 3.8 GB 2 weeks ago'' @ [CHR 0x0A] @
               ''mistral  4.1 GB yesterday'' @ [CHR 0x0A], stderr = []\<rparr>)
        \<lparr>heap = [], console = [], chat_log = []\<rparr>)
     = Inr [\<lparr>name = ''llama2'', full_name = ''llama2:7b'', size' = ''3.8 GB'', modified = ''2 weeks ago''\<rparr>,
            \<lparr>name = ''mistral'', full_name = ''mistral'', size' = ''4.1 GB'', modified = ''yesterday''\<rparr>]"
proof -
  let ?p = "\<lparr>returncode = 0,
      stdout = ''NAME SIZE UNIT MODIFIED'' @ [CHR 0x0A] @ ''llama2:7b 3.8 GB 2 weeks ago'' @ [CHR 0x0A] @
               ''mistral  4.1 GB yesterday'' @ [CHR 0x0A], stderr = []\<rparr>"
  have h1: "returncode ?p = 0" by simp
  have h2: "data_lines (stdout ?p) = Inr [''llama2:7b 3.8 GB 2 weeks ago'', ''mistral  4.1 GB yesterday'']"
    by (simp add: eval_defs)
  show ?thesis
    using h1 h2 get_models_rows [OF h1 h2, of "\<lparr>heap = [], console = [], chat_log = []\<rparr>"]
    by (simp add: eval_defs)
qed

text \<open>
  Claim C6. A line after the header whose whitespace split has fewer than four tokens adds
  no record: the result is the one that the loop gives on the lines without it.
\<close>

theorem get_models_short_row_dropped:
  assumes "returncode p = 0" and "data_lines (stdout p) = Inr (before @ line # after)"
    and "length (py_split line) < 4"
  shows "\<exists>models. parse_lines (before @ after) [] = Inr models \<and>
           fst (get_models (Completed p) w) = Inr (if models \<noteq> [] then models else [placeholder])"
proof -
  from assms(3) have "parse_lines (before @ line # after) [] = parse_lines (before @ after) []"
    by (simp add: parse_lines_eq)
  moreover obtain models where "parse_lines (before @ after) [] = Inr models"
    using parse_lines_eq by blast
  ultimately show ?thesis
    using get_models_ok [OF assms(1) assms(2)] by simp
qed

theorem get_models_short_row_dropped_witness:
  "returncode \<lparr>returncode = 0,
      stdout = ''a:1 1 GB now'' @ [CHR 0x0A] @ ''b:2 2GB now'' @ [CHR 0x0A] @ ''c:3 3 GB now'', stderr = []\<rparr> = 0 \<and>
   data_lines (stdout \<lparr>returncode = 0,
      stdout = ''a:1 1 GB now'' @ [CHR 0x0A] @ ''b:2 2GB now'' @ [CHR 0x0A] @ ''c:3 3 GB now'', stderr = []\<rparr>)
     = Inr ([''a:1 1 GB now''] @ ''b:2 2GB now'' # [''c:3 3 GB now'']) \<and>
   length (py_split ''b:2 2GB now'') < 4 \<and>
   fst (get_models (Completed \<lparr>returncode = 0,
      stdout = ''a:1 1 GB now'' @ [CHR 0x0A] @ ''b:2 2GB now'' @ [CHR 0x0A] @ ''c:3 3 GB now'', stderr = []\<rparr>)
        \<lparr>heap = [], console = [], chat_log = []\<rparr>)
     = Inr [\<lparr>name = ''a'', full_name = ''a:1'', size' = ''1 GB'', modified = ''now''\<rparr>,
            \<lparr>name = ''c'', full_name = ''c:3'', size' = ''3 GB'', modified = ''now''\<rparr>]"
proof -
  let ?p = "\<lparr>returncode = 0,
      stdout = ''a:1 1 GB now'' @ [CHR 0x0A] @ ''b:2 2GB now'' @ [CHR 0x0A] @ ''c:3 3 GB now'', stderr = []\<rparr>"
  have h1: "returncode ?p = 0" by simp
  have h2: "data_lines (stdout ?p) = Inr ([''a:1 1 GB now''] @ ''b:2 2GB now'' # [''c:3 3 GB now''])"
    by (simp add: eval_defs)
  have h3: "length (py_split ''b:2 2GB now'') < 4"
    by (simp add: eval_defs)
  have run: "parse_lines ([''a:1 1 GB now''] @ [''c:3 3 GB now'']) []
     = Inr [\<lparr>name = ''a'', full_name = ''a:1'', size' = ''1 GB'', modified = ''now''\<rparr>,
            \<lparr>name = ''c'', full_name = ''c:3'', size' = ''3 GB'', modified = ''now''\<rparr>]"
    by (simp add: eval_defs)
  show ?thesis
    using h1 h2 h3 run get_models_short_row_dropped [OF h1 h2 h3, of "\<lparr>heap = [], console = [], chat_log = []\<rparr>"]
    by auto
qed

text \<open>
  Claim C7. The first line of the stripped output is left out exactly when \<open>NAME\<close>
  occurs in it; when it does not, the first line goes through the loop with the others.
\<close>

theorem get_models_header:
  assumes "returncode p = 0" and "py_split_on CHR 0x0A (py_strip (stdout p)) = first # rest"
  shows "\<exists>models. parse_lines (if (\<exists>a b. first = a @ ''NAME'' @ b) then rest else first # rest) [] = Inr models \<and>
           fst (get_models (Completed p) w) = Inr (if models \<noteq> [] then models else [placeholder])"
proof -
  let ?rows = "if (\<exists>a b. first = a @ ''NAME'' @ b) then rest else first # rest"
  have rows: "data_lines (stdout p) = Inr ?rows"
    using assms(2) by (simp add: data_lines_def py_in_iff)
  obtain models where models: "parse_lines ?rows [] = Inr models"
    using parse_lines_eq by blast
  show ?thesis
    using get_models_ok [OF assms(1) rows models, of w] models by simp
qed

theorem get_models_header_witness:
  "returncode \<lparr>returncode = 0, stdout = ''NAME SIZE'' @ [CHR 0x0A] @ ''a:1 1 GB now'', stderr = []\<rparr> = 0 \<and>
   py_split_on CHR 0x0A (py_strip (stdout \<lparr>returncode = 0, stdout = ''NAME SIZE'' @ [CHR 0x0A] @ ''a:1 1 GB now'', stderr = []\<rparr>))
     = ''NAME SIZE'' # [''a:1 1 GB now''] \<and>
   (\<exists>a b. ''NAME SIZE'' = a @ ''NAME'' @ b) \<and>
   fst (get_models (Completed \<lparr>returncode = 0, stdout = ''NAME SIZE'' @ [CHR 0x0A] @ ''a:1 1 GB now'', stderr = []\<rparr>)
        \<lparr>heap = [], console = [], chat_log = []\<rparr>)
     = Inr [\<lparr>name = ''a'', full_name = ''a:1'', size' = ''1 GB'', modified = ''now''\<rparr>]"
proof -
  let ?p = "\<lparr>returncode = 0, stdout = ''NAME SIZE'' @ [CHR 0x0A] @ ''a:1 1 GB now'', stderr = []\<rparr>"
  have h1: "returncode ?p = 0" by simp
  have h2: "py_split_on CHR 0x0A (py_strip (stdout ?p)) = ''NAME SIZE'' # [''a:1 1 GB now'']"
    by (simp add: eval_defs)
  have "''NAME SIZE'' = [] @ ''NAME'' @ '' SIZE''" by simp
  then have h3: "\<exists>a b. ''NAME SIZE'' = a @ ''NAME'' @ b" by blast
  have run: "parse_lines [''a:1 1 GB now''] []
     = Inr [\<lparr>name = ''a'', full_name = ''a:1'', size' = ''1 GB'', modified = ''now''\<rparr>]"
    by (simp add: eval_defs)
  show ?thesis
    using h1 h2 h3 run get_models_header [OF h1 h2, of "\<lparr>heap = [], console = [], chat_log = []\<rparr>"]
    by auto
qed

text \<open>
  Claim C9. In every record that \<open>get_models\<close> returns, the placeholder included, the
  name is the full name up to its first colon; so it is the full name when that has no colon.
\<close>

theorem get_models_name_invariant:
  assumes "fst (get_models run w) = Inr models" and "r \<in> set models"
  shows "name r = takeWhile (\<lambda>c. c \<noteq> CHR '':'') (full_name r) \<and>
         (CHR '':'' \<notin> set (full_name r) \<longrightarrow> name r = full_name r)"
proof -
  have ph: "name placeholder = takeWhile (\<lambda>c. c \<noteq> CHR '':'') (full_name placeholder)"
    by (simp add: placeholder_def)
  have trunc: "name r = takeWhile (\<lambda>c. c \<noteq> CHR '':'') (full_name r)"
  proof (cases run)
    case (RunRaises e)
    with assms ph show ?thesis by (auto simp: get_models_def split: if_splits)
  next
    case (Completed p)
    show ?thesis
    proof (cases "returncode p = 0")
      case True
      obtain rows where rows: "data_lines (stdout p) = Inr rows"
        using data_lines_Inr by blast
      from get_models_ok [OF True rows parse_lines_eq [of rows "[]"], of w] assms Completed ph
      show ?thesis by (auto split: if_splits)
    next
      case False
      with assms ph Completed show ?thesis by (auto simp: get_models_def)
    qed
  qed
  moreover have "CHR '':'' \<notin> set (full_name r) \<Longrightarrow> takeWhile (\<lambda>c. c \<noteq> CHR '':'') (full_name r) = full_name r"
    by (auto simp: takeWhile_eq_all_conv)
  ultimately show ?thesis by simp
qed

theorem get_models_name_invariant_witness:
  "fst (get_models (Completed \<lparr>returncode = 0, stdout = ''mistral 4.1 GB yesterday'', stderr = []\<rparr>)
        \<lparr>heap = [], console = [], chat_log = []\<rparr>)
     = Inr [\<lparr>name = ''mistral'', full_name = ''mistral'', size' = ''4.1 GB'', modified = ''yesterday''\<rparr>] \<and>
   \<lparr>name = ''mistral'', full_name = ''mistral'', size' = ''4.1 GB'', modified = ''yesterday''\<rparr>
     \<in> set [\<lparr>name = ''mistral'', full_name = ''mistral'', size' = ''4.1 GB'', modified = ''yesterday''\<rparr>] \<and>
   CHR '':'' \<notin> set (full_name \<lparr>name = ''mistral'', full_name = ''mistral'', size' = ''4.1 GB'', modified = ''yesterday''\<rparr>) \<and>
   name \<lparr>name = ''mistral'', full_name = ''mistral'', size' = ''4.1 GB'', modified = ''yesterday''\<rparr>
     = full_name \<lparr>name = ''mistral'', full_name = ''mistral'', size' = ''4.1 GB'', modified = ''yesterday''\<rparr>"
proof -
  let ?r = "\<lparr>name = ''mistral'', full_name = ''mistral'', size' = ''4.1 GB'', modified = ''yesterday''\<rparr>"
  have h1: "fst (get_models (Completed \<lparr>returncode = 0, stdout = ''mistral 4.1 GB yesterday'', stderr = []\<rparr>)
        \<lparr>heap = [], console = [], chat_log = []\<rparr>) = Inr [?r]"
    by (simp add: get_models_def parse_output_def eval_defs)
  have h2: "?r \<in> set [?r]" by simp
  have h3: "CHR '':'' \<notin> set (full_name ?r)" by simp
  show ?thesis
    using h1 h2 h3 get_models_name_invariant [OF h1 h2] by blast
qed

section \<open>Properties of the chat relay and of the submit handler\<close>

text \<open>
  The loop writes to the \<open>messages\<close> list only: every other object, the console and
  the log stay as they are, and no object is added.
\<close>

lemma append_message_frame:
  "length (heap (append_message a m w)) = length (heap w)"
  "console (append_message a m w) = console w"
  "chat_log (append_message a m w) = chat_log w"
  "b \<noteq> a \<Longrightarrow> heap_get (append_message a m w) b = heap_get w b"
  by (auto simp: append_message_def heap_get_def split: option.splits pyobj.splits)

lemma add_history_frame:
  "length (heap (snd (add_history turns a w))) = length (heap w) \<and>
   console (snd (add_history turns a w)) = console w \<and>
   chat_log (snd (add_history turns a w)) = chat_log w \<and>
   (b \<noteq> a \<longrightarrow> heap_get (snd (add_history turns a w)) b = heap_get w b)"
proof (induction turns arbitrary: w)
  case Nil
  then show ?case by simp
next
  case (Cons turn rest)
  show ?case
  proof (cases "unpack_turn turn")
    case (Inl e)
    then show ?thesis by simp
  next
    case (Inr pair)
    then show ?thesis
      by (cases pair) (simp add: Cons.IH append_message_frame)
  qed
qed

lemma unpack_turn_two: "length turn = 2 \<Longrightarrow> unpack_turn turn = Inr (turn ! 0, turn ! 1)"
proof -
  assume "length turn = 2"
  then obtain x y where "turn = [x, y]"
    by (cases turn; cases "tl turn") auto
  then show ?thesis by (simp add: unpack_turn_def)
qed

lemma add_history_turns:
  assumes "heap_get w a = Some (Messages ms)" and "\<forall>turn\<in>set turns. length turn = 2"
  shows "add_history turns a w =
     (Inr (), w\<lparr>heap := (heap w)[a := Messages (ms @ concat (map (\<lambda>turn.
        [\<lparr>role = ''user'', content = turn ! 0\<rparr>, \<lparr>role = ''assistant'', content = turn ! 1\<rparr>]) turns))]\<rparr>)"
  using assms
proof (induction turns arbitrary: w ms)
  case Nil
  then have "heap w ! a = Messages ms"
    by (simp add: heap_get_def split: if_splits)
  then have "(heap w)[a := Messages ms] = heap w"
    by (metis list_update_id)
  then show ?case by simp
next
  case (Cons turn rest)
  let ?u = "\<lparr>role = ''user'', content = turn ! 0\<rparr>"
  let ?v = "\<lparr>role = ''assistant'', content = turn ! 1\<rparr>"
  let ?w2 = "append_message a ?v (append_message a ?u w)"
  from Cons.prems have a: "a < length (heap w)"
    by (simp add: heap_get_def split: if_splits)
  from Cons.prems have w2: "?w2 = w\<lparr>heap := (heap w)[a := Messages (ms @ [?u, ?v])]\<rparr>"
    using a by (simp add: append_message_def heap_get_def)
  then have get: "heap_get ?w2 a = Some (Messages (ms @ [?u, ?v]))"
    using a by (simp add: heap_get_def)
  from Cons.prems have two: "unpack_turn turn = Inr (turn ! 0, turn ! 1)"
    by (simp add: unpack_turn_two)
  have step: "add_history (turn # rest) a w = add_history rest a ?w2"
    by (simp add: two)
  have ih: "add_history rest a ?w2 = (Inr (), ?w2\<lparr>heap := (heap ?w2)[a := Messages ((ms @ [?u, ?v]) @ concat (map (\<lambda>turn.
        [\<lparr>role = ''user'', content = turn ! 0\<rparr>, \<lparr>role = ''assistant'', content = turn ! 1\<rparr>]) rest))]\<rparr>)"
    using Cons.IH [OF get] Cons.prems(2) by simp
  have fin: "?w2\<lparr>heap := (heap ?w2)[a := Messages ((ms @ [?u, ?v]) @ concat (map (\<lambda>turn.
        [\<lparr>role = ''user'', content = turn ! 0\<rparr>, \<lparr>role = ''assistant'', content = turn ! 1\<rparr>]) rest))]\<rparr>
      = w\<lparr>heap := (heap w)[a := Messages (ms @ concat (map (\<lambda>turn.
        [\<lparr>role = ''user'', content = turn ! 0\<rparr>, \<lparr>role = ''assistant'', content = turn ! 1\<rparr>]) (turn # rest)))]\<rparr>"
    unfolding w2 by simp
  show ?case
    by (simp only: step ih fin)
qed

text \<open>The \<open>try\<close> block on a history of turns of two strings each, in closed form.\<close>

lemma chat_try_turns:
  assumes "heap_get w history = Some (Turns turns)" and "\<forall>turn\<in>set turns. length turn = 2"
  shows "chat_try chat message history model_name temp w =
    (let payload = \<lparr>role = ''system'', content = system_message\<rparr> #
           concat (map (\<lambda>turn. [\<lparr>role = ''user'', content = turn ! 0\<rparr>,
                                 \<lparr>role = ''assistant'', content = turn ! 1\<rparr>]) turns) @
           [\<lparr>role = ''user'', content = message\<rparr>];
         request = \<lparr>model = model_name, messages = payload, options = \<lparr>temperature = temp\<rparr>\<rparr>;
         w' = w\<lparr>heap := heap w @ [Messages payload], chat_log := chat_log w @ [request]\<rparr>
     in case chat request of
          ChatRaises e \<Rightarrow> (Inl e, w')
        | ChatReturns response \<Rightarrow>
            (case response ''message'' of
               None \<Rightarrow> (Inl (KeyError ''message''), w')
             | Some msg \<Rightarrow>
                 (case msg ''content'' of
                    None \<Rightarrow> (Inl (KeyError ''content''), w')
                  | Some text \<Rightarrow> (Inr text, w'))))"
proof -
  let ?sys = "\<lparr>role = ''system'', content = system_message\<rparr>"
  let ?hist = "concat (map (\<lambda>turn. [\<lparr>role = ''user'', content = turn ! 0\<rparr>,
                                 \<lparr>role = ''assistant'', content = turn ! 1\<rparr>]) turns)"
  let ?a = "length (heap w)"
  let ?w1 = "w\<lparr>heap := heap w @ [Messages [?sys]]\<rparr>"
  from assms(1) have lt: "history < ?a"
    by (simp add: heap_get_def split: if_splits)
  from assms(1) have h: "heap w ! history = Turns turns"
    by (simp add: heap_get_def split: if_splits)
  have m1: "heap_get ?w1 ?a = Some (Messages [?sys])"
    by (simp add: heap_get_def)
  have loop: "add_history turns ?a ?w1 = (Inr (), w\<lparr>heap := heap w @ [Messages (?sys # ?hist)]\<rparr>)"
    using add_history_turns [OF m1 assms(2)] by simp
  show ?thesis
    using lt h loop
    by (simp add: chat_try_def alloc_def append_message_def messages_at_def heap_get_def Let_def nth_append
        split: chat_outcome.splits option.splits)
qed

lemma heap_get_update_other [simp]:
  "heap_get (w\<lparr>chat_log := l\<rparr>) a = heap_get w a"
  "heap_get (print s w) a = heap_get w a"
  by (simp_all add: heap_get_def print_def)

lemma chat_try_heap:
  assumes "heap_get w history = Some obj"
  shows "heap_get (snd (chat_try chat message history model_name temp w)) history = Some obj"
proof -
  let ?sys = "\<lparr>role = ''system'', content = system_message\<rparr>"
  let ?a = "length (heap w)"
  let ?w1 = "w\<lparr>heap := heap w @ [Messages [?sys]]\<rparr>"
  from assms have lt: "history < ?a"
    by (simp add: heap_get_def split: if_splits)
  then have ne: "history \<noteq> ?a" by simp
  have h1: "heap_get ?w1 history = Some obj"
    using assms lt by (simp add: heap_get_def nth_append)
  have loop: "heap_get (snd (add_history turns ?a ?w1)) history = Some obj" for turns
    using add_history_frame [of turns ?a ?w1 history] ne h1 by simp
  have last: "heap_get (append_message ?a m (snd (add_history turns ?a ?w1))) history = Some obj" for turns m
    using loop ne by (simp add: append_message_frame)
  show ?thesis
  proof (cases obj)
    case (Turns turns)
    obtain r w2 where r: "add_history turns ?a ?w1 = (r, w2)"
      by (cases "add_history turns ?a ?w1")
    from loop [of turns] last [of _ turns] r
    have "heap_get w2 history = Some obj" and "\<And>m. heap_get (append_message ?a m w2) history = Some obj"
      by simp_all
    then show ?thesis
      using h1 Turns r
      by (simp add: chat_try_def alloc_def Let_def split: sum.splits chat_outcome.splits option.splits)
  next
    case (Messages ms)
    then show ?thesis
      using h1 by (simp add: chat_try_def alloc_def)
  qed
qed

lemma chat_try_heap_length:
  "length (heap (snd (chat_try chat message history model_name temp w))) = Suc (length (heap w))"
proof -
  let ?sys = "\<lparr>role = ''system'', content = system_message\<rparr>"
  let ?a = "length (heap w)"
  let ?w1 = "w\<lparr>heap := heap w @ [Messages [?sys]]\<rparr>"
  have loop: "length (heap (snd (add_history turns ?a ?w1))) = Suc ?a" for turns
    using add_history_frame [of turns ?a ?w1] by simp
  show ?thesis
  proof (cases "heap_get ?w1 history")
    case None
    then show ?thesis by (simp add: chat_try_def alloc_def)
  next
    case (Some obj)
    show ?thesis
    proof (cases obj)
      case (Turns turns)
      obtain r w2 where r: "add_history turns ?a ?w1 = (r, w2)"
        by (cases "add_history turns ?a ?w1")
      from loop [of turns] r have "length (heap w2) = Suc ?a" by simp
      then show ?thesis
        using Some Turns r
        by (simp add: chat_try_def alloc_def Let_def append_message_frame
            split: sum.splits chat_outcome.splits option.splits)
    next
      case (Messages ms)
      then show ?thesis using Some by (simp add: chat_try_def alloc_def)
    qed
  qed
qed

lemma chat_try_call:
  "(chat_log (snd (chat_try chat message history model_name temp w)) = chat_log w) \<or>
   (\<exists>request. chat_log (snd (chat_try chat message history model_name temp w)) = chat_log w @ [request] \<and>
      (\<forall>e. chat request = ChatRaises e \<longrightarrow> fst (chat_try chat message history model_name temp w) = Inl e))"
proof -
  let ?sys = "\<lparr>role = ''system'', content = system_message\<rparr>"
  let ?a = "length (heap w)"
  let ?w1 = "w\<lparr>heap := heap w @ [Messages [?sys]]\<rparr>"
  have loop: "chat_log (snd (add_history turns ?a ?w1)) = chat_log w" for turns
    using add_history_frame [of turns ?a ?w1] by simp
  show ?thesis
  proof (cases "heap_get ?w1 history")
    case None
    then show ?thesis by (simp add: chat_try_def alloc_def)
  next
    case (Some obj)
    show ?thesis
    proof (cases obj)
      case (Turns turns)
      obtain r w2 where r: "add_history turns ?a ?w1 = (r, w2)"
        by (cases "add_history turns ?a ?w1")
      from loop [of turns] r have "chat_log w2 = chat_log w" by simp
      then show ?thesis
        using Some Turns r
        by (simp add: chat_try_def alloc_def Let_def append_message_frame
            split: sum.splits chat_outcome.splits option.splits)
    next
      case (Messages ms)
      then show ?thesis using Some by (simp add: chat_try_def alloc_def)
    qed
  qed
qed

text \<open>What leaves \<open>chat_with_model\<close> as a raise is no instance of \<open>Exception\<close>.\<close>

lemma chat_with_model_raises:
  "fst (chat_with_model chat message history model_name temp w) = Inl e \<Longrightarrow> \<not> is_Exception e"
  by (auto simp: chat_with_model_def split: prod.splits sum.splits if_splits)

text \<open>The definitions that the examples on concrete conversations unfold.\<close>

lemmas chat_eval_defs = chat_with_model_def chat_try_def alloc_def heap_get_def unpack_turn_def
  append_message_def messages_at_def print_def Let_def

text \<open>
  Claim C1, as the code has it. When the call of the chat endpoint is made and raises an
  instance of \<open>Exception\<close>, \<open>chat_with_model\<close> returns the string \<open>Error: \<close> followed
  by the text of the exception: it returns a value and raises nothing itself, for every
  message, history, model and temperature. A raised value that is no instance of
  \<open>Exception\<close> passes the handler of line 91 and leaves \<open>chat_with_model\<close>.
\<close>

theorem chat_with_model_relay_failure:
  assumes "chat_log (snd (chat_with_model chat message history model_name temp w)) = chat_log w @ [request]"
    and "chat request = ChatRaises e"
  shows "fst (chat_with_model chat message history model_name temp w) =
           (if is_Exception e then Inr (''Error: '' @ str_exception e) else Inl e)"
proof -
  obtain r w1 where t: "chat_try chat message history model_name temp w = (r, w1)"
    by (cases "chat_try chat message history model_name temp w")
  then have "chat_log (snd (chat_with_model chat message history model_name temp w)) = chat_log w1"
    by (cases r) (simp_all add: chat_with_model_def print_def)
  with assms(1) have log: "chat_log w1 = chat_log w @ [request]"
    by simp
  from chat_try_call [of chat message history model_name temp w] t log assms(2)
  have "r = Inl e" by auto
  with t show ?thesis
    by (simp add: chat_with_model_def)
qed

theorem chat_with_model_relay_failure_witness:
  "chat_log (snd (chat_with_model (\<lambda>request. ChatRaises (Exception ''ConnectionError'' ''refused''))
       ''hi'' 0 ''llama2:7b'' 0.7 \<lparr>heap = [Turns []], console = [], chat_log = []\<rparr>))
     = chat_log \<lparr>heap = [Turns []], console = [], chat_log = []\<rparr> @
       [\<lparr>model = ''llama2:7b'',
         messages = [\<lparr>role = ''system'', content = system_message\<rparr>, \<lparr>role = ''user'', content = ''hi''\<rparr>],
         options = \<lparr>temperature = 0.7\<rparr>\<rparr>] \<and>
   is_Exception (Exception ''ConnectionError'' ''refused'') \<and>
   fst (chat_with_model (\<lambda>request. ChatRaises (Exception ''ConnectionError'' ''refused''))
       ''hi'' 0 ''llama2:7b'' 0.7 \<lparr>heap = [Turns []], console = [], chat_log = []\<rparr>)
     = Inr ''Error: refused''"
proof -
  let ?chat = "\<lambda>request::chat_request. ChatRaises (Exception ''ConnectionError'' ''refused'')"
  let ?w = "\<lparr>heap = [Turns []], console = [], chat_log = []\<rparr>"
  let ?request = "\<lparr>model = ''llama2:7b'',
         messages = [\<lparr>role = ''system'', content = system_message\<rparr>, \<lparr>role = ''user'', content = ''hi''\<rparr>],
         options = \<lparr>temperature = 0.7\<rparr>\<rparr>"
  have h1: "chat_log (snd (chat_with_model ?chat ''hi'' 0 ''llama2:7b'' 0.7 ?w)) = chat_log ?w @ [?request]"
    by (simp add: chat_eval_defs)
  have h2: "?chat ?request = ChatRaises (Exception ''ConnectionError'' ''refused'')"
    by simp
  from chat_with_model_relay_failure [OF h1 h2] h1 show ?thesis
    by simp
qed

text \<open>
  The claim as the specification words it, for any exception, fails when the call of the
  endpoint is interrupted: the request was sent, the call raises, and \<open>chat_with_model\<close>
  raises to its caller instead of returning a string.
\<close>

theorem chat_with_model_relay_failure_counterexample:
  "chat_log (snd (chat_with_model (\<lambda>request. ChatRaises (BaseException ''KeyboardInterrupt'' []))
       ''hi'' 0 ''llama2:7b'' 0.7 \<lparr>heap = [Turns []], console = [], chat_log = []\<rparr>))
     = [\<lparr>model = ''llama2:7b'',
         messages = [\<lparr>role = ''system'', content = system_message\<rparr>, \<lparr>role = ''user'', content = ''hi''\<rparr>],
         options = \<lparr>temperature = 0.7\<rparr>\<rparr>] \<and>
   fst (chat_with_model (\<lambda>request. ChatRaises (BaseException ''KeyboardInterrupt'' []))
       ''hi'' 0 ''llama2:7b'' 0.7 \<lparr>heap = [Turns []], console = [], chat_log = []\<rparr>)
     = Inl (BaseException ''KeyboardInterrupt'' [])"
  by (simp add: chat_eval_defs)

text \<open>
  Claim C8. The object at the address of the history is after the call what it was before
  it, whether the endpoint returns or raises: \<open>chat_with_model\<close> writes to no list but
  the one it has created.
\<close>

theorem chat_with_model_history_unchanged:
  assumes "heap_get w history = Some obj"
  shows "heap_get (snd (chat_with_model chat message history model_name temp w)) history = Some obj"
proof -
  obtain r w1 where t: "chat_try chat message history model_name temp w = (r, w1)"
    by (cases "chat_try chat message history model_name temp w")
  with chat_try_heap [OF assms, of chat message model_name temp]
  have "heap_get w1 history = Some obj" by simp
  with t show ?thesis
    by (cases r) (simp_all add: chat_with_model_def)
qed

theorem chat_with_model_history_unchanged_witness:
  "heap_get \<lparr>heap = [Turns [[''a'', ''b'']]], console = [], chat_log = []\<rparr> 0 = Some (Turns [[''a'', ''b'']]) \<and>
   heap_get (snd (chat_with_model (\<lambda>request. ChatReturns [''message'' \<mapsto> [''content'' \<mapsto> ''hello'']])
       ''hi'' 0 ''llama2:7b'' 0.7 \<lparr>heap = [Turns [[''a'', ''b'']]], console = [], chat_log = []\<rparr>)) 0
     = Some (Turns [[''a'', ''b'']])"
proof -
  have h: "heap_get \<lparr>heap = [Turns [[''a'', ''b'']]], console = [], chat_log = []\<rparr> 0 = Some (Turns [[''a'', ''b'']])"
    by (simp add: heap_get_def)
  from chat_with_model_history_unchanged [OF h] h show ?thesis
    by blast
qed

lemma chat_with_model_heap_length:
  "length (heap (snd (chat_with_model chat message history model_name temp w))) = Suc (length (heap w))"
proof -
  obtain r w1 where t: "chat_try chat message history model_name temp w = (r, w1)"
    by (cases "chat_try chat message history model_name temp w")
  with chat_try_heap_length [of chat message history model_name temp w]
  have "length (heap w1) = Suc (length (heap w))" by simp
  with t show ?thesis
    by (cases r) (simp_all add: chat_with_model_def print_def)
qed

text \<open>
  Claim C10. For the empty message, \<open>respond\<close> returns the empty textbox value with the
  address of the history it was given, and the world is as before: the heap with the
  history in it, the console, and the log of the requests. A call of \<open>chat_with_model\<close>
  never leaves the world as it was, so there was none.
\<close>

theorem respond_empty_message:
  "respond chat [] chat_history model_name temp w = (Inr ([], chat_history), w) \<and>
   snd (respond chat [] chat_history model_name temp w)
     \<noteq> snd (chat_with_model chat message' history' model_name' temp' w)"
proof -
  have "length (heap (snd (chat_with_model chat message' history' model_name' temp' w))) \<noteq> length (heap w)"
    by (simp add: chat_with_model_heap_length)
  then have "snd (chat_with_model chat message' history' model_name' temp' w) \<noteq> w"
    by auto
  then show ?thesis
    by (simp add: respond_def)
qed

lemma pairs_length: "length (concat (map (\<lambda>x. [f x, g x]) xs)) = 2 * length xs"
  by (induction xs) simp_all

lemma pairs_nth:
  "i < length xs \<Longrightarrow>
   concat (map (\<lambda>x. [f x, g x]) xs) ! (2 * i) = f (xs ! i) \<and>
   concat (map (\<lambda>x. [f x, g x]) xs) ! (2 * i + 1) = g (xs ! i)"
proof (induction xs arbitrary: i)
  case Nil
  then show ?case by simp
next
  case (Cons x xs)
  show ?case
  proof (cases i)
    case 0
    then show ?thesis by simp
  next
    case (Suc j)
    with Cons.prems have "j < length xs" by simp
    from Cons.IH [OF this] Suc show ?thesis by simp
  qed
qed

lemma chat_with_model_turns:
  assumes "heap_get w history = Some (Turns turns)" and "\<forall>turn\<in>set turns. length turn = 2"
  shows "chat_log (snd (chat_with_model chat message history model_name temp w)) = chat_log w @
      [\<lparr>model = model_name,
        messages = \<lparr>role = ''system'', content = system_message\<rparr> #
           concat (map (\<lambda>turn. [\<lparr>role = ''user'', content = turn ! 0\<rparr>,
                                 \<lparr>role = ''assistant'', content = turn ! 1\<rparr>]) turns) @
           [\<lparr>role = ''user'', content = message\<rparr>],
        options = \<lparr>temperature = temp\<rparr>\<rparr>]"
  unfolding chat_with_model_def chat_try_turns [OF assms]
  by (simp add: Let_def print_def split: chat_outcome.splits option.splits)

lemma chat_with_model_reply:
  assumes "heap_get w history = Some (Turns turns)" and "\<forall>turn\<in>set turns. length turn = 2"
    and "chat \<lparr>model = model_name,
        messages = \<lparr>role = ''system'', content = system_message\<rparr> #
           concat (map (\<lambda>turn. [\<lparr>role = ''user'', content = turn ! 0\<rparr>,
                                 \<lparr>role = ''assistant'', content = turn ! 1\<rparr>]) turns) @
           [\<lparr>role = ''user'', content = message\<rparr>],
        options = \<lparr>temperature = temp\<rparr>\<rparr> = ChatReturns response"
    and "response ''message'' = Some msg" and "msg ''content'' = Some text"
  shows "fst (chat_with_model chat message history model_name temp w) = Inr text"
  unfolding chat_with_model_def chat_try_turns [OF assms(1,2)] Let_def assms(3)
  by (simp add: assms(4,5))

text \<open>
  Claim C3. For a history of N turns, each turn a list of two strings, the request that
  reaches the endpoint carries \<open>1 + 2N + 1\<close> messages (two for the empty history), and
  the messages at the positions \<open>1 + 2i\<close> and \<open>1 + 2i + 1\<close> are the user message and
  the assistant message of turn \<open>i\<close>: the turns keep their order.
\<close>

theorem chat_with_model_payload_length:
  assumes "heap_get w history = Some (Turns turns)" and "\<forall>turn\<in>set turns. length turn = 2"
  shows "\<exists>request.
     chat_log (snd (chat_with_model chat message history model_name temp w)) = chat_log w @ [request] \<and>
     length (messages request) = 1 + 2 * length turns + 1 \<and>
     (\<forall>i<length turns.
        messages request ! (1 + 2 * i) = \<lparr>role = ''user'', content = turns ! i ! 0\<rparr> \<and>
        messages request ! (1 + 2 * i + 1) = \<lparr>role = ''assistant'', content = turns ! i ! 1\<rparr>)"
proof -
  let ?f = "\<lambda>turn. \<lparr>role = ''user'', content = turn ! 0\<rparr>"
  let ?g = "\<lambda>turn. \<lparr>role = ''assistant'', content = turn ! 1\<rparr>"
  let ?hist = "concat (map (\<lambda>turn. [?f turn, ?g turn]) turns)"
  let ?payload = "\<lparr>role = ''system'', content = system_message\<rparr> # ?hist @ [\<lparr>role = ''user'', content = message\<rparr>]"
  let ?request = "\<lparr>model = model_name, messages = ?payload, options = \<lparr>temperature = temp\<rparr>\<rparr>"
  have log: "chat_log (snd (chat_with_model chat message history model_name temp w)) = chat_log w @ [?request]"
    by (rule chat_with_model_turns [OF assms])
  have len: "length ?hist = 2 * length turns"
    by (rule pairs_length)
  then have total: "length (messages ?request) = 1 + 2 * length turns + 1"
    by simp
  have order: "messages ?request ! (1 + 2 * i) = ?f (turns ! i) \<and>
               messages ?request ! (1 + 2 * i + 1) = ?g (turns ! i)" if "i < length turns" for i
  proof -
    from that len have "2 * i < length ?hist" and "2 * i + 1 < length ?hist" by simp_all
    then have "messages ?request ! (1 + 2 * i) = ?hist ! (2 * i)"
      and "messages ?request ! (1 + 2 * i + 1) = ?hist ! (2 * i + 1)"
      by (simp_all add: nth_append)
    with pairs_nth [OF that, of ?f ?g] show ?thesis by simp
  qed
  from log total order show ?thesis by blast
qed

theorem chat_with_model_payload_length_witness:
  "heap_get \<lparr>heap = [Turns []], console = [], chat_log = []\<rparr> 0 = Some (Turns []) \<and>
   (\<exists>request.
      chat_log (snd (chat_with_model (\<lambda>request. ChatRaises (Exception ''ConnectionError'' ''refused''))
          ''hi'' 0 ''llama2:7b'' 0.7 \<lparr>heap = [Turns []], console = [], chat_log = []\<rparr>)) = [request] \<and>
      length (messages request) = 2) \<and>
   heap_get \<lparr>heap = [Turns [[''a'', ''b''], [''c'', ''d'']]], console = [], chat_log = []\<rparr> 0
     = Some (Turns [[''a'', ''b''], [''c'', ''d'']]) \<and>
   length [''a'', ''b''] = 2 \<and> length [''c'', ''d''] = 2 \<and>
   (\<exists>request.
      chat_log (snd (chat_with_model (\<lambda>request. ChatRaises (Exception ''ConnectionError'' ''refused''))
          ''hi'' 0 ''llama2:7b'' 0.7
          \<lparr>heap = [Turns [[''a'', ''b''], [''c'', ''d'']]], console = [], chat_log = []\<rparr>)) = [request] \<and>
      length (messages request) = 6 \<and>
      messages request ! 1 = \<lparr>role = ''user'', content = ''a''\<rparr> \<and>
      messages request ! 2 = \<lparr>role = ''assistant'', content = ''b''\<rparr> \<and>
      messages request ! 3 = \<lparr>role = ''user'', content = ''c''\<rparr> \<and>
      messages request ! 4 = \<lparr>role = ''assistant'', content = ''d''\<rparr>)"
proof -
  let ?chat = "\<lambda>request::chat_request. ChatRaises (Exception ''ConnectionError'' ''refused'')"
  let ?w0 = "\<lparr>heap = [Turns []], console = [], chat_log = []\<rparr>"
  let ?w2 = "\<lparr>heap = [Turns [[''a'', ''b''], [''c'', ''d'']]], console = [], chat_log = []\<rparr>"
  have a1: "heap_get ?w0 0 = Some (Turns [])"
    by (simp add: heap_get_def)
  have a2: "\<forall>turn\<in>set ([] :: string list list). length turn = 2"
    by simp
  have b1: "heap_get ?w2 0 = Some (Turns [[''a'', ''b''], [''c'', ''d'']])"
    by (simp add: heap_get_def)
  have b2: "\<forall>turn\<in>set [[''a'', ''b''], [''c'', ''d'']]. length turn = 2"
    by simp
  from chat_with_model_payload_length [OF a1 a2, of ?chat "''hi''" "''llama2:7b''" "0.7"]
  obtain request0 where
    "chat_log (snd (chat_with_model ?chat ''hi'' 0 ''llama2:7b'' 0.7 ?w0)) = [request0]" and
    "length (messages request0) = 2"
    by auto
  then have r0: "\<exists>request.
      chat_log (snd (chat_with_model ?chat ''hi'' 0 ''llama2:7b'' 0.7 ?w0)) = [request] \<and>
      length (messages request) = 2"
    by blast
  from chat_with_model_payload_length [OF b1 b2, of ?chat "''hi''" "''llama2:7b''" "0.7"]
  obtain request where
    log: "chat_log (snd (chat_with_model ?chat ''hi'' 0 ''llama2:7b'' 0.7 ?w2)) = [request]" and
    len: "length (messages request) = 6" and
    order: "\<forall>i<2. messages request ! (1 + 2 * i) = \<lparr>role = ''user'', content = [[''a'', ''b''], [''c'', ''d'']] ! i ! 0\<rparr> \<and>
        messages request ! (1 + 2 * i + 1) = \<lparr>role = ''assistant'', content = [[''a'', ''b''], [''c'', ''d'']] ! i ! 1\<rparr>"
    by auto
  from order [rule_format, of 0] order [rule_format, of 1]
  have "messages request ! 1 = \<lparr>role = ''user'', content = ''a''\<rparr>"
    and "messages request ! 2 = \<lparr>role = ''assistant'', content = ''b''\<rparr>"
    and "messages request ! 3 = \<lparr>role = ''user'', content = ''c''\<rparr>"
    and "messages request ! 4 = \<lparr>role = ''assistant'', content = ''d''\<rparr>"
    by (simp_all add: eval_nat_numeral)
  with log len have r2: "\<exists>request.
      chat_log (snd (chat_with_model ?chat ''hi'' 0 ''llama2:7b'' 0.7 ?w2)) = [request] \<and>
      length (messages request) = 6 \<and>
      messages request ! 1 = \<lparr>role = ''user'', content = ''a''\<rparr> \<and>
      messages request ! 2 = \<lparr>role = ''assistant'', content = ''b''\<rparr> \<and>
      messages request ! 3 = \<lparr>role = ''user'', content = ''c''\<rparr> \<and>
      messages request ! 4 = \<lparr>role = ''assistant'', content = ''d''\<rparr>"
    by blast
  from a1 r0 b1 r2 show ?thesis
    by simp
qed

text \<open>
  Claim C5. For a history of turns, each a list of two strings, the request that reaches
  the endpoint has the given model, the temperature as its option, and as messages the
  system message with the fixed instruction, then a user and an assistant message for
  every turn in order, then the new message as a user message. When the endpoint returns a
  response, the result is the text \<open>response['message']['content']\<close>.
\<close>

theorem chat_with_model_payload:
  assumes "heap_get w history = Some (Turns turns)" and "\<forall>turn\<in>set turns. length turn = 2"
  shows "let request = \<lparr>model = model_name,
             messages = \<lparr>role = ''system'', content = system_message\<rparr> #
               concat (map (\<lambda>turn. [\<lparr>role = ''user'', content = turn ! 0\<rparr>,
                                     \<lparr>role = ''assistant'', content = turn ! 1\<rparr>]) turns) @
               [\<lparr>role = ''user'', content = message\<rparr>],
             options = \<lparr>temperature = temp\<rparr>\<rparr>
         in chat_log (snd (chat_with_model chat message history model_name temp w)) = chat_log w @ [request] \<and>
            (\<forall>response msg text.
               chat request = ChatReturns response \<and> response ''message'' = Some msg \<and> msg ''content'' = Some text
               \<longrightarrow> fst (chat_with_model chat message history model_name temp w) = Inr text)"
  unfolding Let_def
  using chat_with_model_turns [OF assms] chat_with_model_reply [OF assms]
  by blast

theorem chat_with_model_payload_witness:
  "heap_get \<lparr>heap = [Turns [[''a'', ''b'']]], console = [], chat_log = []\<rparr> 0 = Some (Turns [[''a'', ''b'']]) \<and>
   length [''a'', ''b''] = 2 \<and>
   chat_log (snd (chat_with_model
       (\<lambda>request. ChatReturns [''message'' \<mapsto> [''content'' \<mapsto> ''You said: '' @ content (last (messages request))]])
       ''hi'' 0 ''llama2:7b'' 0.7 \<lparr>heap = [Turns [[''a'', ''b'']]], console = [], chat_log = []\<rparr>))
     = [\<lparr>model = ''llama2:7b'',
         messages = [\<lparr>role = ''system'', content = system_message\<rparr>,
                     \<lparr>role = ''user'', content = ''a''\<rparr>,
                     \<lparr>role = ''assistant'', content = ''b''\<rparr>,
                     \<lparr>role = ''user'', content = ''hi''\<rparr>],
         options = \<lparr>temperature = 0.7\<rparr>\<rparr>] \<and>
   fst (chat_with_model
       (\<lambda>request. ChatReturns [''message'' \<mapsto> [''content'' \<mapsto> ''You said: '' @ content (last (messages request))]])
       ''hi'' 0 ''llama2:7b'' 0.7 \<lparr>heap = [Turns [[''a'', ''b'']]], console = [], chat_log = []\<rparr>)
     = Inr ''You said: hi''"
proof -
  let ?chat = "\<lambda>request. ChatReturns [''message'' \<mapsto> [''content'' \<mapsto> ''You said: '' @ content (last (messages request))]]"
  let ?w = "\<lparr>heap = [Turns [[''a'', ''b'']]], console = [], chat_log = []\<rparr>"
  have h1: "heap_get ?w 0 = Some (Turns [[''a'', ''b'']])"
    by (simp add: heap_get_def)
  have h2: "\<forall>turn\<in>set [[''a'', ''b'']]. length turn = 2"
    by simp
  from chat_with_model_payload [OF h1 h2, of "''llama2:7b''" "''hi''" "0.7" ?chat] h1
  show ?thesis
    by (simp add: Let_def)
qed

end
